theory Spec2Isabelle
  imports Complex_Main
begin

section \<open>ERA5 monthly-mean viewer (app.py)\<close>

text \<open>
  The program is one Python script. Its own code is string formatting, table lookups,
  control flow and one loop; array, file and widget operations belong to xarray, numpy,
  cartopy, plotly and Streamlit. The embedding follows that split: what app.py computes
  itself is a HOL function, and what it delegates is a field of the record \<open>lib\<close>,
  so that every theorem holds for any behaviour of those libraries.

  Python \<open>int\<close> is \<open>int\<close>. Python \<open>str\<close> is \<open>string\<close>; a character outside
  ASCII is written as its UTF-8 bytes, which keeps equality and concatenation as they are.
\<close>

subsection \<open>Errors\<close>

datatype py_error =
    KeyError string          \<comment> \<open>\<open>raise KeyError(short)\<close> in \<open>find_var\<close>, or a missing table key\<close>
  | LibError string          \<comment> \<open>any exception raised inside a library call\<close>

subsection \<open>Python floats\<close>

text \<open>
  A float is not-a-number, an infinity or a finite value. Arithmetic on finite values
  rounds; the rounding is the parameter \<open>rnd\<close>, of which theorems assume only what
  they need.
\<close>

datatype pyfloat = NaN | NInf | Fin real | PInf

type_synonym rounding = "real \<Rightarrow> pyfloat"

fun fge :: "pyfloat \<Rightarrow> pyfloat \<Rightarrow> bool" where
  "fge NaN _ = False"
| "fge _ NaN = False"
| "fge PInf _ = True"
| "fge _ NInf = True"
| "fge NInf _ = False"
| "fge _ PInf = False"
| "fge (Fin a) (Fin b) = (b \<le> a)"

fun flt :: "pyfloat \<Rightarrow> pyfloat \<Rightarrow> bool" where
  "flt NaN _ = False"
| "flt _ NaN = False"
| "flt PInf _ = False"
| "flt _ NInf = False"
| "flt NInf _ = True"
| "flt _ PInf = True"
| "flt (Fin a) (Fin b) = (a < b)"

definition fgt :: "pyfloat \<Rightarrow> pyfloat \<Rightarrow> bool" where
  "fgt a b = flt b a"

fun fneg :: "pyfloat \<Rightarrow> pyfloat" where
  "fneg NaN = NaN"
| "fneg NInf = PInf"
| "fneg PInf = NInf"
| "fneg (Fin a) = Fin (- a)"

fun fsub :: "rounding \<Rightarrow> pyfloat \<Rightarrow> pyfloat \<Rightarrow> pyfloat" where
  "fsub rnd NaN _ = NaN"
| "fsub rnd _ NaN = NaN"
| "fsub rnd PInf PInf = NaN"
| "fsub rnd NInf NInf = NaN"
| "fsub rnd PInf _ = PInf"
| "fsub rnd NInf _ = NInf"
| "fsub rnd (Fin a) PInf = NInf"
| "fsub rnd (Fin a) NInf = PInf"
| "fsub rnd (Fin a) (Fin b) = rnd (a - b)"

text \<open>Division of a float by a positive integer constant (\<open>x / 50\<close>).\<close>

fun fdiv_pos :: "rounding \<Rightarrow> pyfloat \<Rightarrow> real \<Rightarrow> pyfloat" where
  "fdiv_pos rnd NaN c = NaN"
| "fdiv_pos rnd PInf c = PInf"
| "fdiv_pos rnd NInf c = NInf"
| "fdiv_pos rnd (Fin a) c = rnd (a / c)"

text \<open>Truth value of a float: only zero is false; not-a-number and infinities are true.\<close>

fun truthy :: "pyfloat \<Rightarrow> bool" where
  "truthy (Fin a) = (a \<noteq> 0)"
| "truthy _ = True"

definition py_or :: "pyfloat \<Rightarrow> pyfloat \<Rightarrow> pyfloat" where
  "py_or a b = (if truthy a then a else b)"

subsection \<open>Python strings\<close>

text \<open>
  \<open>s.upper()\<close> on the ASCII letters; every other byte stays. The variable names of the
  tables are ASCII.
\<close>

definition upper_char :: "char \<Rightarrow> char" where
  "upper_char c =
     (let n = (of_char c :: nat)
      in if 97 \<le> n \<and> n \<le> 122 then char_of (n - 32) else c)"

definition upper :: "string \<Rightarrow> string" where
  "upper s = map upper_char s"

text \<open>\<open>s.replace(old, new)\<close> for a non-empty \<open>old\<close>: left to right, not overlapping.\<close>

fun replace_from :: "string \<Rightarrow> string \<Rightarrow> nat \<Rightarrow> string \<Rightarrow> string" where
  "replace_from old new skip [] = []"
| "replace_from old new (Suc k) (c # cs) = replace_from old new k cs"
| "replace_from old new 0 (c # cs) =
     (if old \<noteq> [] \<and> take (length old) (c # cs) = old
      then new @ replace_from old new (length old - 1) cs
      else c # replace_from old new 0 cs)"

definition replace :: "string \<Rightarrow> string \<Rightarrow> string \<Rightarrow> string" where
  "replace s old new = replace_from old new 0 s"

text \<open>\<open>str(n)\<close> of an integer, as an f-string field \<open>{n}\<close> prints it.\<close>

definition digit_char :: "nat \<Rightarrow> char" where
  "digit_char d = char_of (48 + d)"

fun str_nat :: "nat \<Rightarrow> string" where
  "str_nat n = (if n < 10 then [digit_char n] else str_nat (n div 10) @ [digit_char (n mod 10)])"

definition str_int :: "int \<Rightarrow> string" where
  "str_int i = (if i < 0 then CHR ''-'' # str_nat (nat (- i)) else str_nat (nat i))"

text \<open>The field \<open>{lvl}\<close> where \<open>lvl\<close> may be \<open>None\<close>.\<close>

fun str_opt_int :: "int option \<Rightarrow> string" where
  "str_opt_int None = ''None''"
| "str_opt_int (Some i) = str_int i"

subsection \<open>Constants\<close>

definition YEARS :: "int list" where
  "YEARS = [1980..2022]"

definition COMMON_PLEVELS :: "int list" where
  "COMMON_PLEVELS = [975, 850, 700, 500, 250, 100, 50, 10]"

text \<open>A table row: (domain, code, vname, units, cmap_abs, cmap_anom).\<close>

type_synonym var_info = "string \<times> string \<times> string \<times> string \<times> string \<times> string"

definition deg_C :: string where
  "deg_C = [CHR 0xC2, CHR 0xB0, CHR ''C'']"

definition sup_minus :: string where
  "sup_minus = [CHR 0xE2, CHR 0x81, CHR 0xBB]"

definition sup_one :: string where
  "sup_one = [CHR 0xC2, CHR 0xB9]"

definition sup_two :: string where
  "sup_two = [CHR 0xC2, CHR 0xB2]"

definition SURFACE :: "(string \<times> var_info) list" where
  "SURFACE =
    [(''Sea-surface temperature'', (''sfc'', ''034'', ''sstk'', deg_C, ''thermal'', ''RdBu_r'')),
     (''CAPE'', (''sfc'', ''059'', ''cape'', ''J kg'' @ sup_minus @ sup_one, ''viridis'', ''PuOr'')),
     (''Surface geopotential'',
        (''sfc'', ''129'', ''z'', ''m'' @ sup_two @ '' s'' @ sup_minus @ sup_two, ''magma'', ''RdBu_r'')),
     (''Surface pressure'', (''sfc'', ''134'', ''sp'', ''hPa'', ''icefire'', ''RdBu_r'')),
     (''Mean sea-level press.'', (''sfc'', ''151'', ''msl'', ''hPa'', ''icefire'', ''RdBu_r'')),
     (''10-m zonal wind'', (''sfc'', ''165'', ''10u'', ''m s'' @ sup_minus @ sup_one, ''curl'', ''RdBu_r'')),
     (''10-m meridional wind'',
        (''sfc'', ''166'', ''10v'', ''m s'' @ sup_minus @ sup_one, ''curl_r'', ''RdBu_r'')),
     (''2-m temperature'', (''sfc'', ''167'', ''2t'', deg_C, ''thermal'', ''RdBu_r''))]"

definition PRESSURE :: "(string \<times> var_info) list" where
  "PRESSURE =
    [(''Potential vorticity'', (''pl'', ''060'', ''pv'', ''PVU'', ''plasma'', ''RdBu_r'')),
     (''Geopotential'',
        (''pl'', ''129'', ''z'', ''m'' @ sup_two @ '' s'' @ sup_minus @ sup_two, ''magma'', ''RdBu_r'')),
     (''Temperature'', (''pl'', ''130'', ''t'', ''K'', ''thermal'', ''RdBu_r'')),
     (''Zonal wind'', (''pl'', ''131'', ''u'', ''m s'' @ sup_minus @ sup_one, ''curl'', ''RdBu_r'')),
     (''Meridional wind'', (''pl'', ''132'', ''v'', ''m s'' @ sup_minus @ sup_one, ''curl_r'', ''RdBu_r'')),
     (''Specific humidity'', (''pl'', ''133'', ''q'', ''kg kg'' @ sup_minus @ sup_one, ''viridis'', ''BrBG'')),
     (''Vertical velocity'', (''pl'', ''135'', ''w'', ''Pa s'' @ sup_minus @ sup_one, ''icefire'', ''RdBu'')),
     (''Relative vorticity'', (''pl'', ''138'', ''vo'', ''s'' @ sup_minus @ sup_one, ''plasma'', ''RdBu_r'')),
     (''Divergence'', (''pl'', ''155'', ''d'', ''s'' @ sup_minus @ sup_one, ''plasma'', ''RdBu_r'')),
     (''Relative humidity'', (''pl'', ''157'', ''r'', ''%'', ''viridis'', ''BrBG'')),
     (''Ozone'', (''pl'', ''203'', ''o3'', ''kg kg'' @ sup_minus @ sup_one, ''viridis'', ''RdBu_r''))]"

subsection \<open>Helpers\<close>

definition rda_url :: "int \<Rightarrow> string \<Rightarrow> string \<Rightarrow> string \<Rightarrow> string" where
  "rda_url y domn code var =
     (let base = ''https://thredds.rda.ucar.edu/thredds/dodsC/files/g/d633001_nc/'';
          tail = (if domn = ''sfc''
                  then ''e5.moda.an.sfc.128_'' @ code @ ''_'' @ var @ ''.ll025sc.''
                  else (let extra = (if var \<in> {''u'', ''v''} then ''uv'' else ''sc'')
                        in ''e5.moda.an.pl.128_'' @ code @ ''_'' @ var @ ''.ll025'' @ extra @ ''.''))
      in base @ ''e5.moda.an.'' @ domn @ ''/'' @ str_int y @ ''/'' @ tail
           @ str_int y @ ''010100_'' @ str_int y @ ''120100.nc'')"

text \<open>
  \<open>find_var\<close> asks the dataset only whether a key is in it; \<open>has\<close> is that test
  (\<open>k in ds\<close>). The loop over the three candidates is \<open>first_key\<close>.
\<close>

fun first_key :: "(string \<Rightarrow> bool) \<Rightarrow> string list \<Rightarrow> string option" where
  "first_key has [] = None"
| "first_key has (k # ks) = (if has k then Some k else first_key has ks)"

definition candidates :: "string \<Rightarrow> string list" where
  "candidates short = (let up = upper short in [up, ''VAR_'' @ up, replace up ''10'' ''10M''])"

definition find_var :: "(string \<Rightarrow> bool) \<Rightarrow> string \<Rightarrow> py_error + string" where
  "find_var has short =
     (case first_key has (candidates short) of
        Some k \<Rightarrow> Inr k
      | None \<Rightarrow> Inl (KeyError short))"

subsection \<open>The libraries\<close>

text \<open>
  \<open>'ds\<close> is an opened dataset and \<open>'f\<close> a data array (\<open>xarray.DataArray\<close>). A call
  that reads a file, the network or an index may raise. The decimal literals the script
  passes (\<open>273.15\<close>, \<open>100.0\<close>, \<open>0.01\<close>, \<open>0.99\<close>) are handed over as written.
  \<open>nanquantile lib da q\<close> is the entry of \<open>np.nanquantile(da, qs)\<close> for the quantile
  \<open>q\<close> of \<open>qs\<close>.
\<close>

datatype location = Url string | FilePath "string list"

datatype geom = LineString "(pyfloat \<times> pyfloat) list" | MultiLineString "(pyfloat \<times> pyfloat) list list"

record ('ds, 'f) lib =
  open_dataset :: "location \<Rightarrow> bool \<Rightarrow> py_error + 'ds"  \<comment> \<open>\<open>xr.open_dataset(loc, decode_times=b)\<close>\<close>
  has_key :: "'ds \<Rightarrow> string \<Rightarrow> bool"                      \<comment> \<open>\<open>k in ds\<close>\<close>
  getitem :: "'ds \<Rightarrow> string \<Rightarrow> py_error + 'f"             \<comment> \<open>\<open>ds[k]\<close>\<close>
  isel_time :: "'f \<Rightarrow> int \<Rightarrow> py_error + 'f"               \<comment> \<open>\<open>da.isel(time=i)\<close>\<close>
  sel_level :: "'f \<Rightarrow> int \<Rightarrow> py_error + 'f"               \<comment> \<open>\<open>da.sel(level=p)\<close>\<close>
  sel_month :: "'f \<Rightarrow> int \<Rightarrow> py_error + 'f"               \<comment> \<open>\<open>da.sel(month=m)\<close>\<close>
  sub_const :: "'f \<Rightarrow> real \<Rightarrow> 'f"                          \<comment> \<open>\<open>da - c\<close>\<close>
  div_const :: "'f \<Rightarrow> real \<Rightarrow> 'f"                          \<comment> \<open>\<open>da / c\<close>\<close>
  sub_field :: "'f \<Rightarrow> 'f \<Rightarrow> 'f"                            \<comment> \<open>\<open>da - other\<close>\<close>
  np_abs :: "'f \<Rightarrow> 'f"                                      \<comment> \<open>\<open>np.abs(da)\<close>\<close>
  nanmin :: "'f \<Rightarrow> pyfloat"                                 \<comment> \<open>\<open>float(np.nanmin(da))\<close>\<close>
  nanmax :: "'f \<Rightarrow> pyfloat"                                 \<comment> \<open>\<open>float(np.nanmax(da))\<close>\<close>
  nanquantile :: "'f \<Rightarrow> real \<Rightarrow> pyfloat"
  geometries :: "string \<Rightarrow> geom list"   \<comment> \<open>\<open>NaturalEarthFeature("physical","coastline",res).geometries()\<close>\<close>

text \<open>What the widgets of one script run return.\<close>

record ui =
  field_type :: string
  choice :: string
  plevel_box :: int
  yr :: int
  mon :: int
  show_anom :: bool
  show_coast :: bool
  slider :: "string \<Rightarrow> pyfloat \<Rightarrow> pyfloat \<Rightarrow> pyfloat \<Rightarrow> pyfloat \<Rightarrow> pyfloat"
    \<comment> \<open>\<open>st.sidebar.slider(label, min, max, value=v, step=s)\<close>\<close>
  button :: bool

text \<open>Sequencing of calls that may raise.\<close>

definition bind_err :: "py_error + 'a \<Rightarrow> ('a \<Rightarrow> py_error + 'b) \<Rightarrow> py_error + 'b" where
  "bind_err m f = (case m of Inl e \<Rightarrow> Inl e | Inr x \<Rightarrow> f x)"

subsection \<open>Sidebar\<close>

text \<open>
  The row of the chosen variable and \<open>plevel\<close>, which is \<open>None\<close> for a surface field.
\<close>

definition sidebar :: "ui \<Rightarrow> py_error + (var_info \<times> int option)" where
  "sidebar u =
     (if field_type u = ''Surface''
      then (case map_of SURFACE (choice u) of
              None \<Rightarrow> Inl (KeyError (choice u))
            | Some row \<Rightarrow> Inr (row, None))
      else (case map_of PRESSURE (choice u) of
              None \<Rightarrow> Inl (KeyError (choice u))
            | Some row \<Rightarrow> Inr (row, Some (plevel_box u))))"

text \<open>A run of the widgets as Streamlit can return it: every select box gives one of its options.\<close>

definition valid_ui :: "ui \<Rightarrow> bool" where
  "valid_ui u \<longleftrightarrow>
     (field_type u = ''Surface'' \<and> choice u \<in> set (map fst SURFACE)
        \<or> field_type u = ''Pressure level'' \<and> choice u \<in> set (map fst PRESSURE))
     \<and> plevel_box u \<in> set COMMON_PLEVELS
     \<and> yr u \<in> set YEARS
     \<and> 1 \<le> mon u \<and> mon u \<le> 12"

subsection \<open>Loading\<close>

text \<open>
  \<open>open_year\<close>, \<open>load_clim\<close> and \<open>coastlines_trace\<close> carry the decorator
  \<open>st.cache_resource\<close> of Streamlit; the definitions are the functions under the
  decorator.
\<close>

definition open_year :: "('ds, 'f) lib \<Rightarrow> string \<Rightarrow> py_error + 'ds" where
  "open_year lib url = open_dataset lib (Url url) False"

definition CLIM_DIR :: "string list \<Rightarrow> string list" where
  "CLIM_DIR here = here @ [''climatology'']"

definition clim_path :: "string list \<Rightarrow> string \<Rightarrow> string \<Rightarrow> int option \<Rightarrow> string list" where
  "clim_path here domn var lvl =
     CLIM_DIR here @ [if domn = ''sfc'' then ''sfc'' else ''pl'']
       @ [if domn = ''sfc'' then var @ ''.nc'' else var @ ''_'' @ str_opt_int lvl @ ''.nc'']"

definition load_clim ::
  "('ds, 'f) lib \<Rightarrow> string list \<Rightarrow> string \<Rightarrow> string \<Rightarrow> int option \<Rightarrow> py_error + 'f" where
  "load_clim lib here domn var lvl =
     bind_err (open_dataset lib (FilePath (clim_path here domn var lvl)) True) (\<lambda>ds.
     bind_err (find_var (has_key lib ds) var) (\<lambda>k.
     getitem lib ds k))"

definition load_field ::
  "('ds, 'f) lib \<Rightarrow> int \<Rightarrow> string \<Rightarrow> string \<Rightarrow> string \<Rightarrow> int \<Rightarrow> int option \<Rightarrow> py_error + 'f" where
  "load_field lib y domn code vname m plevel =
     bind_err (open_year lib (rda_url y domn code vname)) (\<lambda>ds.
     bind_err (find_var (has_key lib ds) vname) (\<lambda>k.
     bind_err (getitem lib ds k) (\<lambda>v.
     bind_err (isel_time lib v (m - 1)) (\<lambda>da.
     (case plevel of None \<Rightarrow> Inr da | Some p \<Rightarrow> sel_level lib da p)))))"

subsection \<open>Unit conversions and anomaly\<close>

definition convert_units :: "('ds, 'f) lib \<Rightarrow> string \<Rightarrow> 'f \<times> string \<Rightarrow> 'f \<times> string" where
  "convert_units lib vname p =
     (let p1 = (if vname \<in> {''sstk'', ''2t'', ''t''} then (sub_const lib (fst p) (27315 / 100), deg_C) else p);
          p2 = (if vname \<in> {''sp'', ''msl''} then (div_const lib (fst p1) 100, ''hPa'') else p1)
      in p2)"

text \<open>The result is the field, the colour map and the units.\<close>

definition anomaly ::
  "('ds, 'f) lib \<Rightarrow> string list \<Rightarrow> bool \<Rightarrow> string \<Rightarrow> string \<Rightarrow> int option \<Rightarrow> int
     \<Rightarrow> string \<Rightarrow> string \<Rightarrow> 'f \<times> string \<Rightarrow> py_error + ('f \<times> string \<times> string)" where
  "anomaly lib here anom domn vname plevel m cmap_abs cmap_anom p =
     (if anom
      then bind_err (load_clim lib here domn vname plevel) (\<lambda>clim.
           bind_err (sel_month lib clim m) (\<lambda>c.
           Inr (sub_field lib (fst p) c, cmap_anom, snd p @ '' anomaly'')))
      else Inr (fst p, cmap_abs, snd p))"

subsection \<open>Colour-bar controls\<close>

definition default_limits :: "('ds, 'f) lib \<Rightarrow> bool \<Rightarrow> 'f \<Rightarrow> pyfloat \<times> pyfloat" where
  "default_limits lib anom da =
     (let data_min = nanmin lib da;
          data_max = nanmax lib da
      in if anom
         then (let default_max = nanmax lib (np_abs lib da);
                   default_min = fneg default_max
               in (default_min, default_max))
         else (data_min, data_max))"

definition slider_step :: "rounding \<Rightarrow> pyfloat \<Rightarrow> pyfloat \<Rightarrow> pyfloat" where
  "slider_step rnd default_min default_max =
     py_or (fdiv_pos rnd (fsub rnd default_max default_min) 50) (rnd (1 / 1000000))"

definition colour_limits :: "('ds, 'f) lib \<Rightarrow> rounding \<Rightarrow> ui \<Rightarrow> 'f \<Rightarrow> pyfloat \<times> pyfloat" where
  "colour_limits lib rnd u da =
     (let data_min = nanmin lib da;
          data_max = nanmax lib da;
          (default_min, default_max) = default_limits lib (show_anom u) da;
          step = slider_step rnd default_min default_max;
          cmin = slider u ''Min'' data_min data_max default_min step;
          cmax = slider u ''Max'' data_min data_max default_max step
      in if button u
         then (nanquantile lib da (1 / 100), nanquantile lib da (99 / 100))
         else (cmin, cmax))"

subsection \<open>Coastlines\<close>

fun fabs :: "pyfloat \<Rightarrow> pyfloat" where
  "fabs NaN = NaN"
| "fabs NInf = PInf"
| "fabs PInf = PInf"
| "fabs (Fin a) = Fin \<bar>a\<bar>"

text \<open>\<open>np.mod(x, 360)\<close>: the remainder has the sign of the divisor.\<close>

fun np_mod360 :: "rounding \<Rightarrow> pyfloat \<Rightarrow> pyfloat" where
  "np_mod360 rnd (Fin a) = rnd (a - 360 * of_int \<lfloor>a / 360\<rfloor>)"
| "np_mod360 rnd _ = NaN"

text \<open>\<open>getattr(geom, "geoms", [geom])\<close>\<close>

fun geoms_of :: "geom \<Rightarrow> (pyfloat \<times> pyfloat) list list" where
  "geoms_of (MultiLineString ls) = ls"
| "geoms_of (LineString l) = [l]"

record trace =
  trace_x :: "pyfloat list"
  trace_y :: "pyfloat list"

text \<open>The test \<open>abs(lon[i+1] - lon[i]) > gap\<close>.\<close>

definition jump :: "rounding \<Rightarrow> int \<Rightarrow> pyfloat \<Rightarrow> pyfloat \<Rightarrow> bool" where
  "jump rnd gap a b = fgt (fabs (fsub rnd b a)) (Fin (of_int gap))"

text \<open>The body of \<open>for i in range(len(lon))\<close>.\<close>

definition vertex_step :: "rounding \<Rightarrow> int \<Rightarrow> pyfloat list \<Rightarrow> pyfloat list \<Rightarrow> nat \<Rightarrow> trace \<Rightarrow> trace" where
  "vertex_step rnd gap lon lat i t =
     (let t1 = t\<lparr>trace_x := trace_x t @ [lon ! i], trace_y := trace_y t @ [lat ! i]\<rparr>
      in if int i < int (length lon) - 1 \<and> jump rnd gap (lon ! i) (lon ! (i + 1))
         then t1\<lparr>trace_x := trace_x t1 @ [NaN], trace_y := trace_y t1 @ [NaN]\<rparr>
         else t1)"

text \<open>The body of \<open>for line in ...\<close>; \<open>line.coords.xy\<close> splits the coordinate pairs.\<close>

definition line_step :: "rounding \<Rightarrow> int \<Rightarrow> (pyfloat \<times> pyfloat) list \<Rightarrow> trace \<Rightarrow> trace" where
  "line_step rnd gap line t =
     (let lon = map (np_mod360 rnd) (map fst line);
          lat = map snd line;
          t0 = t\<lparr>trace_x := trace_x t @ [NaN], trace_y := trace_y t @ [NaN]\<rparr>
      in fold (vertex_step rnd gap lon lat) [0 ..< length lon] t0)"

definition geom_step :: "rounding \<Rightarrow> int \<Rightarrow> geom \<Rightarrow> trace \<Rightarrow> trace" where
  "geom_step rnd gap g t = fold (line_step rnd gap) (geoms_of g) t"

definition coastlines_trace :: "('ds, 'f) lib \<Rightarrow> rounding \<Rightarrow> string \<Rightarrow> int \<Rightarrow> trace" where
  "coastlines_trace lib rnd res gap =
     fold (geom_step rnd gap) (geometries lib res) \<lparr>trace_x = [], trace_y = []\<rparr>"

text \<open>
  The overlay as the specification words it: for each line a break, then each vertex in
  order, with a break after a vertex whose successor is further than \<open>gap\<close> away.
\<close>

definition brk :: "pyfloat \<times> pyfloat" where
  "brk = (NaN, NaN)"

fun with_gaps :: "rounding \<Rightarrow> int \<Rightarrow> (pyfloat \<times> pyfloat) list \<Rightarrow> (pyfloat \<times> pyfloat) list" where
  "with_gaps rnd gap [] = []"
| "with_gaps rnd gap [p] = [p]"
| "with_gaps rnd gap (p # q # ps) =
     (if jump rnd gap (fst p) (fst q) then p # brk # with_gaps rnd gap (q # ps)
      else p # with_gaps rnd gap (q # ps))"

definition polyline :: "rounding \<Rightarrow> int \<Rightarrow> (pyfloat \<times> pyfloat) list \<Rightarrow> (pyfloat \<times> pyfloat) list" where
  "polyline rnd gap line = brk # with_gaps rnd gap (map (\<lambda>(x, y). (np_mod360 rnd x, y)) line)"

definition overlay :: "rounding \<Rightarrow> int \<Rightarrow> geom list \<Rightarrow> (pyfloat \<times> pyfloat) list" where
  "overlay rnd gap gs = concat (map (polyline rnd gap) (concat (map geoms_of gs)))"

subsection \<open>The script\<close>

record 'f figure =
  img :: 'f
  color_continuous_scale :: string
  color_label :: string
  title :: string
  fig_cmin :: pyfloat
  fig_cmax :: pyfloat
  traces :: "trace list"

datatype 'f outcome = Stopped string | Chart "'f figure"

definition bullet :: string where
  "bullet = [CHR 0x20, CHR 0xE2, CHR 0x80, CHR 0xA2, CHR 0x20]"

text \<open>The field \<open>{mon:02d}\<close>.\<close>

definition fmt_02d :: "int \<Rightarrow> string" where
  "fmt_02d m = (if 0 \<le> m \<and> m < 10 then CHR ''0'' # str_int m else str_int m)"

definition make_title :: "string \<Rightarrow> int \<Rightarrow> int \<Rightarrow> int option \<Rightarrow> bool \<Rightarrow> string" where
  "make_title ch m y plevel anom =
     (let t = ch @ bullet @ fmt_02d m @ ''/'' @ str_int y
                @ (case plevel of
                     None \<Rightarrow> []
                   | Some p \<Rightarrow> if p \<noteq> 0 then bullet @ str_int p @ '' hPa'' else [])
      in if anom then t @ bullet @ ''anomaly'' else t)"

text \<open>The field, the colour map and the units that the plot shows.\<close>

definition displayed ::
  "('ds, 'f) lib \<Rightarrow> string list \<Rightarrow> ui \<Rightarrow> var_info \<Rightarrow> int option \<Rightarrow> py_error + ('f \<times> string \<times> string)" where
  "displayed lib here u row plevel =
     (case row of (domn, code, vname, units, cmap_abs, cmap_anom) \<Rightarrow>
        bind_err (load_field lib (yr u) domn code vname (mon u) plevel) (\<lambda>da.
        anomaly lib here (show_anom u) domn vname plevel (mon u) cmap_abs cmap_anom
          (convert_units lib vname (da, units))))"

text \<open>From the colour limits on: the validation and the plot.\<close>

definition render ::
  "('ds, 'f) lib \<Rightarrow> rounding \<Rightarrow> ui \<Rightarrow> int option \<Rightarrow> 'f \<times> string \<times> string
     \<Rightarrow> pyfloat \<times> pyfloat \<Rightarrow> 'f outcome" where
  "render lib rnd u plevel shown limits =
     (let cmin = fst limits; cmax = snd limits
      in if fge cmin cmax
         then Stopped ''Min must be less than Max''
         else Chart \<lparr>img = fst shown,
                     color_continuous_scale = fst (snd shown),
                     color_label = snd (snd shown),
                     title = make_title (choice u) (mon u) (yr u) plevel (show_anom u),
                     fig_cmin = cmin,
                     fig_cmax = cmax,
                     traces = (if show_coast u then [coastlines_trace lib rnd ''110m'' 10] else [])\<rparr>)"

definition app :: "('ds, 'f) lib \<Rightarrow> rounding \<Rightarrow> string list \<Rightarrow> ui \<Rightarrow> py_error + 'f outcome" where
  "app lib rnd here u =
     bind_err (sidebar u) (\<lambda>(row, plevel).
     bind_err (displayed lib here u row plevel) (\<lambda>shown.
     Inr (render lib rnd u plevel shown (colour_limits lib rnd u (fst shown)))))"

subsection \<open>A small instance of the libraries\<close>

text \<open>
  To run the definitions on concrete inputs: an array is a flat list of values together
  with the selections made on it, a dataset is a list of named arrays, and the datasets
  are found in a store by location. The quantile function is left open.
\<close>

record grid =
  vals :: "pyfloat list"
  sels :: "(string \<times> int) list"

type_synonym dataset = "(string \<times> grid) list"

definition fmin2 :: "pyfloat \<Rightarrow> pyfloat \<Rightarrow> pyfloat" where
  "fmin2 a b = (if flt b a then b else a)"

definition fmax2 :: "pyfloat \<Rightarrow> pyfloat \<Rightarrow> pyfloat" where
  "fmax2 a b = (if flt a b then b else a)"

definition reduce_nan :: "(pyfloat \<Rightarrow> pyfloat \<Rightarrow> pyfloat) \<Rightarrow> pyfloat list \<Rightarrow> pyfloat" where
  "reduce_nan f vs = (case filter (\<lambda>v. v \<noteq> NaN) vs of [] \<Rightarrow> NaN | v # r \<Rightarrow> fold f r v)"

definition sample_lib ::
  "(location \<Rightarrow> dataset option) \<Rightarrow> geom list \<Rightarrow> (grid \<Rightarrow> real \<Rightarrow> pyfloat) \<Rightarrow> (dataset, grid) lib" where
  "sample_lib store coast quant =
     \<lparr>open_dataset = (\<lambda>loc b. case store loc of
                                  None \<Rightarrow> Inl (LibError ''FileNotFoundError'')
                                | Some ds \<Rightarrow> Inr ds),
      has_key = (\<lambda>ds k. k \<in> set (map fst ds)),
      getitem = (\<lambda>ds k. case map_of ds k of None \<Rightarrow> Inl (KeyError k) | Some g \<Rightarrow> Inr g),
      isel_time = (\<lambda>g i. Inr (g\<lparr>sels := sels g @ [(''time'', i)]\<rparr>)),
      sel_level = (\<lambda>g p. Inr (g\<lparr>sels := sels g @ [(''level'', p)]\<rparr>)),
      sel_month = (\<lambda>g m. Inr (g\<lparr>sels := sels g @ [(''month'', m)]\<rparr>)),
      sub_const = (\<lambda>g c. g\<lparr>vals := map (\<lambda>v. fsub Fin v (Fin c)) (vals g)\<rparr>),
      div_const = (\<lambda>g c. g\<lparr>vals := map (\<lambda>v. fdiv_pos Fin v c) (vals g)\<rparr>),
      sub_field = (\<lambda>g h. g\<lparr>vals := map2 (fsub Fin) (vals g) (vals h)\<rparr>),
      np_abs = (\<lambda>g. g\<lparr>vals := map fabs (vals g)\<rparr>),
      nanmin = (\<lambda>g. reduce_nan fmin2 (vals g)),
      nanmax = (\<lambda>g. reduce_nan fmax2 (vals g)),
      nanquantile = quant,
      geometries = (\<lambda>res. coast)\<rparr>"

text \<open>One run of the widgets, and a store with one remote file and one climatology file.\<close>

definition sample_ui :: ui where
  "sample_ui = \<lparr>field_type = ''Pressure level'', choice = ''Temperature'', plevel_box = 500,
                 yr = 2000, mon = 7, show_anom = False, show_coast = False,
                 slider = (\<lambda>label lo hi v step. v), button = False\<rparr>"

definition sample_store :: "location \<Rightarrow> dataset option" where
  "sample_store loc =
     (if loc = Url (rda_url 2000 ''pl'' ''130'' ''t'')
      then Some [(''T'', \<lparr>vals = [Fin 280, NaN, Fin 300], sels = []\<rparr>)]
      else if loc = FilePath [''app'', ''climatology'', ''pl'', ''t_500.nc'']
      then Some [(''VAR_T'', \<lparr>vals = [Fin 10, Fin 10, Fin 20], sels = []\<rparr>)]
      else None)"

text \<open>
  Two neighbouring points of the overlay, neither of them a break, are not further apart
  than \<open>gap\<close> in longitude: no segment is drawn across a jump.
\<close>

definition no_jump :: "rounding \<Rightarrow> int \<Rightarrow> pyfloat \<times> pyfloat \<Rightarrow> pyfloat \<times> pyfloat \<Rightarrow> bool" where
  "no_jump rnd gap p q \<longleftrightarrow> (fst p \<noteq> NaN \<and> fst q \<noteq> NaN \<longrightarrow> \<not> jump rnd gap (fst p) (fst q))"

definition sample_coast :: "geom list" where
  "sample_coast =
     [LineString [(Fin 350, Fin 10), (Fin 5, Fin 11), (Fin 8, Fin 12)],
      MultiLineString [[(Fin (- 170), Fin 0), (Fin 170, Fin 1)], []]]"

section \<open>Properties\<close>

subsection \<open>Helper facts\<close>

lemma flt_not_fge: "flt a b \<Longrightarrow> \<not> fge a b"
  by (cases a; cases b) simp_all

lemma find_var_order:
  "find_var has short =
     (if has (upper short) then Inr (upper short)
      else if has (''VAR_'' @ upper short) then Inr (''VAR_'' @ upper short)
      else if has (replace (upper short) ''10'' ''10M'') then Inr (replace (upper short) ''10'' ''10M'')
      else Inl (KeyError short))"
  by (simp add: find_var_def candidates_def Let_def)

lemma upper_10u: "upper ''10u'' = ''10U''"
  by code_simp

lemma replace_10U: "replace ''10U'' ''10'' ''10M'' = ''10MU''"
  by (simp add: replace_def)

subsection \<open>Looking a variable up in a dataset\<close>

text \<open>
  Claim C8. For every dataset and short name, \<open>find_var\<close> returns the first key that is
  in the dataset among the upper-cased name, that name prefixed with \<open>VAR_\<close>, and that
  name with \<open>10\<close> replaced by \<open>10M\<close>, in this order. It raises exactly when none of the
  three is in the dataset, and then the error is \<open>KeyError\<close> with the original short name.
\<close>

theorem find_var_first_present:
  "find_var has short =
     (if has (upper short) then Inr (upper short)
      else if has (''VAR_'' @ upper short) then Inr (''VAR_'' @ upper short)
      else if has (replace (upper short) ''10'' ''10M'') then Inr (replace (upper short) ''10'' ''10M'')
      else Inl (KeyError short))
   \<and> ((\<exists>e. find_var has short = Inl e) \<longleftrightarrow>
        \<not> has (upper short) \<and> \<not> has (''VAR_'' @ upper short)
          \<and> \<not> has (replace (upper short) ''10'' ''10M''))
   \<and> (\<forall>e. find_var has short = Inl e \<longrightarrow> e = KeyError short)"
  by (simp add: find_var_order)

theorem find_var_first_present_witness:
  "find_var (\<lambda>k. k \<in> set [''10MU'', ''T'']) ''10u'' = Inr ''10MU''
   \<and> find_var (\<lambda>k. k \<in> set [''VAR_10U'', ''10MU'']) ''10u'' = Inr ''VAR_10U''
   \<and> find_var (\<lambda>k. k \<in> set [''SP'']) ''10u'' = Inl (KeyError ''10u'')"
proof -
  have a: "find_var (\<lambda>k. k \<in> set [''10MU'', ''T'']) ''10u'' = Inr ''10MU''"
    by (simp add: conjunct1 [OF find_var_first_present] upper_10u replace_10U)
  have b: "find_var (\<lambda>k. k \<in> set [''VAR_10U'', ''10MU'']) ''10u'' = Inr ''VAR_10U''"
    by (simp add: conjunct1 [OF find_var_first_present] upper_10u replace_10U)
  have c: "find_var (\<lambda>k. k \<in> set [''SP'']) ''10u'' = Inl (KeyError ''10u'')"
    by (simp add: conjunct1 [OF find_var_first_present] upper_10u replace_10U)
  from a b c show ?thesis by simp
qed

subsection \<open>Unit conversion\<close>

text \<open>
  Claim C5. The conversion applied to a fetched field: for the short names \<open>sstk\<close>,
  \<open>2t\<close> and \<open>t\<close> the field is decreased by 273.15 and the units become degrees Celsius;
  for \<open>sp\<close> and \<open>msl\<close> the field is divided by 100.0 and the units become \<open>hPa\<close>; for
  every other name the field and the units of the table row are unchanged.
\<close>

theorem unit_conversion:
  "convert_units lib vname (da, units) =
     (if vname = ''sstk'' \<or> vname = ''2t'' \<or> vname = ''t'' then (sub_const lib da (27315 / 100), deg_C)
      else if vname = ''sp'' \<or> vname = ''msl'' then (div_const lib da 100, ''hPa'')
      else (da, units))"
  by (simp add: convert_units_def Let_def)

theorem unit_conversion_witness:
  "convert_units (sample_lib Map.empty [] (\<lambda>g q. Fin q)) ''t'' (\<lparr>vals = [Fin 280, NaN], sels = []\<rparr>, ''K'')
     = (\<lparr>vals = [Fin (137 / 20), NaN], sels = []\<rparr>, deg_C)
   \<and> convert_units (sample_lib Map.empty [] (\<lambda>g q. Fin q)) ''msl'' (\<lparr>vals = [Fin 101300], sels = []\<rparr>, ''hPa'')
     = (\<lparr>vals = [Fin 1013], sels = []\<rparr>, ''hPa'')
   \<and> convert_units (sample_lib Map.empty [] (\<lambda>g q. Fin q)) ''z'' (\<lparr>vals = [Fin 5], sels = []\<rparr>, ''m'')
     = (\<lparr>vals = [Fin 5], sels = []\<rparr>, ''m'')"
  using unit_conversion [of "sample_lib Map.empty [] (\<lambda>g q. Fin q)" "''t''" "\<lparr>vals = [Fin 280, NaN], sels = []\<rparr>" "''K''"]
        unit_conversion [of "sample_lib Map.empty [] (\<lambda>g q. Fin q)" "''msl''" "\<lparr>vals = [Fin 101300], sels = []\<rparr>" "''hPa''"]
        unit_conversion [of "sample_lib Map.empty [] (\<lambda>g q. Fin q)" "''z''" "\<lparr>vals = [Fin 5], sels = []\<rparr>" "''m''"]
  by (simp add: sample_lib_def)

subsection \<open>Default colour limits\<close>

text \<open>
  Claim C9. With the anomaly view on, the default maximum is the largest absolute value
  of the displayed field, not-a-number values ignored, and the default minimum is its
  negation; with the anomaly view off, the defaults are the smallest and the largest
  value of the field, not-a-number values ignored.
\<close>

theorem default_limits_symmetric:
  "(anom \<longrightarrow>
      default_limits lib anom da = (fneg (nanmax lib (np_abs lib da)), nanmax lib (np_abs lib da))
      \<and> fst (default_limits lib anom da) = fneg (snd (default_limits lib anom da)))
   \<and> (\<not> anom \<longrightarrow> default_limits lib anom da = (nanmin lib da, nanmax lib da))"
  by (simp add: default_limits_def Let_def)

theorem default_limits_symmetric_witness:
  "default_limits (sample_lib Map.empty [] (\<lambda>g q. Fin q)) True \<lparr>vals = [Fin (- 3), NaN, Fin 2], sels = []\<rparr>
     = (Fin (- 3), Fin 3)
   \<and> default_limits (sample_lib Map.empty [] (\<lambda>g q. Fin q)) False \<lparr>vals = [Fin (- 3), NaN, Fin 2], sels = []\<rparr>
     = (Fin (- 3), Fin 2)"
  using default_limits_symmetric [of True "sample_lib Map.empty [] (\<lambda>g q. Fin q)" "\<lparr>vals = [Fin (- 3), NaN, Fin 2], sels = []\<rparr>"]
        default_limits_symmetric [of False "sample_lib Map.empty [] (\<lambda>g q. Fin q)" "\<lparr>vals = [Fin (- 3), NaN, Fin 2], sels = []\<rparr>"]
  by (simp add: sample_lib_def reduce_nan_def fmax2_def fmin2_def)

subsection \<open>The slider step\<close>

text \<open>
  Claim C10, as amended. Let rounding keep a non-negative value non-negative and let the
  literal \<open>1e-6\<close> be positive. For default limits with \<open>default_max >= default_min\<close>
  that are not one and the same infinity, the slider step
  \<open>(default_max - default_min) / 50 or 1e-6\<close> is strictly positive; in particular it is
  for a constant finite field.
\<close>

theorem slider_step_positive:
  assumes sign: "\<forall>x. 0 \<le> x \<longrightarrow> fge (rnd x) (Fin 0)"
      and lit: "fgt (rnd (1 / 1000000)) (Fin 0)"
      and ge: "fge default_max default_min"
      and fin: "\<not> (default_max = default_min \<and> (default_max = PInf \<or> default_max = NInf))"
  shows "fgt (slider_step rnd default_min default_max) (Fin 0)"
proof -
  have pos: "fgt (py_or (fdiv_pos rnd v 50) (rnd (1 / 1000000))) (Fin 0)" if v: "fge v (Fin 0)" for v
  proof (cases v)
    fix c assume vc: "v = Fin c"
    with v have "0 \<le> c / 50" by simp
    with sign have d: "fge (rnd (c / 50)) (Fin 0)" by blast
    show ?thesis
      using d lit by (cases "rnd (c / 50)") (auto simp: vc py_or_def fgt_def)
  qed (use v in \<open>simp_all add: py_or_def fgt_def\<close>)
  have "fge (fsub rnd default_max default_min) (Fin 0)"
  proof (cases default_max; cases default_min)
    fix a b assume ab: "default_max = Fin a" "default_min = Fin b"
    with ge have "0 \<le> a - b" by simp
    with sign ab show ?thesis by simp
  qed (use ge fin in simp_all)
  from pos [OF this] show ?thesis by (simp add: slider_step_def)
qed

theorem slider_step_positive_witness:
  "fgt (slider_step Fin (Fin 4) (Fin 4)) (Fin 0) \<and> slider_step Fin (Fin 4) (Fin 4) = Fin (1 / 1000000)
   \<and> fgt (slider_step Fin (Fin (- 3)) (Fin 2)) (Fin 0) \<and> slider_step Fin (Fin (- 3)) (Fin 2) = Fin (1 / 10)"
  using slider_step_positive [of Fin "Fin 4" "Fin 4"] slider_step_positive [of Fin "Fin 2" "Fin (- 3)"]
  by (simp add: fgt_def slider_step_def py_or_def)

text \<open>
  The claim as the specification states it fails on a field whose values are all plus
  infinity or not-a-number, with the anomaly view off: both defaults are plus infinity,
  their difference is not-a-number, and so is the step.
\<close>

theorem slider_step_nan_counterexample:
  "fge (snd (default_limits (sample_lib Map.empty [] (\<lambda>g q. Fin q)) False \<lparr>vals = [PInf, NaN], sels = []\<rparr>))
       (fst (default_limits (sample_lib Map.empty [] (\<lambda>g q. Fin q)) False \<lparr>vals = [PInf, NaN], sels = []\<rparr>))
   \<and> slider_step Fin
        (fst (default_limits (sample_lib Map.empty [] (\<lambda>g q. Fin q)) False \<lparr>vals = [PInf, NaN], sels = []\<rparr>))
        (snd (default_limits (sample_lib Map.empty [] (\<lambda>g q. Fin q)) False \<lparr>vals = [PInf, NaN], sels = []\<rparr>))
      = NaN
   \<and> \<not> fgt NaN (Fin 0)"
  by (simp add: default_limits_def sample_lib_def reduce_nan_def fmax2_def fmin2_def slider_step_def py_or_def fgt_def)

subsection \<open>Running the script on the sample store\<close>

lemma render_stop_msg:
  "render lib rnd u plevel shown limits = Stopped msg \<Longrightarrow> msg = ''Min must be less than Max''"
  by (simp add: render_def Let_def split: if_splits)

lemma sidebar_sample:
  "sidebar (sample_ui\<lparr>show_anom := a, button := b, slider := s\<rparr>)
     = Inr ((''pl'', ''130'', ''t'', ''K'', ''thermal'', ''RdBu_r''), Some 500)"
  by (simp add: sidebar_def sample_ui_def PRESSURE_def)

lemma upper_t: "upper ''t'' = ''T''"
  by code_simp

lemma find_var_t: "find_var (\<lambda>k. k = ''T'') ''t'' = Inr ''T''"
  by (simp add: find_var_order upper_t)

lemma load_field_sample:
  "load_field (sample_lib sample_store c q) 2000 ''pl'' ''130'' ''t'' 7 (Some 500)
     = Inr \<lparr>vals = [Fin 280, NaN, Fin 300], sels = [(''time'', 6), (''level'', 500)]\<rparr>"
  by (simp add: load_field_def open_year_def sample_lib_def sample_store_def bind_err_def find_var_t)

lemma displayed_sample:
  "displayed (sample_lib sample_store c q) [''app''] (sample_ui\<lparr>show_anom := False, button := b, slider := s\<rparr>)
     (''pl'', ''130'', ''t'', ''K'', ''thermal'', ''RdBu_r'') (Some 500)
     = Inr (\<lparr>vals = [Fin (137 / 20), NaN, Fin (537 / 20)], sels = [(''time'', 6), (''level'', 500)]\<rparr>,
            ''thermal'', deg_C)"
  apply (simp add: displayed_def sample_ui_def load_field_sample bind_err_def anomaly_def convert_units_def)
  apply (simp add: sample_lib_def)
  done

subsection \<open>Validation of the colour limits\<close>

text \<open>
  Claim C3. Take a run of the script in which the sidebar and the loading of the
  displayed field succeed, and let the colour limits be those in effect after the sliders
  and the auto-scale button. The script reports \<open>Min must be less than Max\<close> and stops
  before the plot exactly when \<open>cmin >= cmax\<close>; otherwise, in particular when
  \<open>cmin < cmax\<close>, it renders the heat map of the displayed field with these limits. No
  other path of the script stops it with a message: a run that stops does so with this
  message.
\<close>

theorem min_max_validation:
  assumes s: "sidebar u = Inr (row, plevel)"
      and d: "displayed lib here u row plevel = Inr shown"
  shows
   "(app lib rnd here u = Inr (Stopped ''Min must be less than Max'')
       \<longleftrightarrow> fge (fst (colour_limits lib rnd u (fst shown))) (snd (colour_limits lib rnd u (fst shown))))
    \<and> ((\<exists>msg. app lib rnd here u = Inr (Stopped msg))
       \<longleftrightarrow> fge (fst (colour_limits lib rnd u (fst shown))) (snd (colour_limits lib rnd u (fst shown))))
    \<and> (flt (fst (colour_limits lib rnd u (fst shown))) (snd (colour_limits lib rnd u (fst shown))) \<longrightarrow>
         (\<exists>fig. app lib rnd here u = Inr (Chart fig)
                \<and> img fig = fst shown
                \<and> fig_cmin fig = fst (colour_limits lib rnd u (fst shown))
                \<and> fig_cmax fig = snd (colour_limits lib rnd u (fst shown))))
    \<and> ((\<exists>fig. app lib rnd here u = Inr (Chart fig))
       \<longleftrightarrow> \<not> fge (fst (colour_limits lib rnd u (fst shown))) (snd (colour_limits lib rnd u (fst shown))))
    \<and> (\<forall>msg. app lib rnd here u = Inr (Stopped msg) \<longrightarrow> msg = ''Min must be less than Max'')"
proof -
  let ?L = "colour_limits lib rnd u (fst shown)"
  have a: "app lib rnd here u = Inr (render lib rnd u plevel shown ?L)"
    by (simp add: app_def s d bind_err_def)
  show ?thesis
  proof (cases "fge (fst ?L) (snd ?L)")
    case True
    then have "render lib rnd u plevel shown ?L = Stopped ''Min must be less than Max''"
      by (simp add: render_def Let_def)
    moreover from True flt_not_fge [of "fst ?L" "snd ?L"] have "\<not> flt (fst ?L) (snd ?L)"
      by blast
    ultimately show ?thesis
      using True by (simp add: a)
  next
    case False
    then have "\<exists>fig. render lib rnd u plevel shown ?L = Chart fig \<and> img fig = fst shown
                 \<and> fig_cmin fig = fst ?L \<and> fig_cmax fig = snd ?L"
      by (simp add: render_def Let_def)
    then obtain fig where "render lib rnd u plevel shown ?L = Chart fig" "img fig = fst shown"
      "fig_cmin fig = fst ?L" "fig_cmax fig = snd ?L" by blast
    with False show ?thesis
      by (simp add: a)
  qed
qed

lemma colour_limits_sample:
  "colour_limits (sample_lib sample_store c q) Fin (sample_ui\<lparr>show_anom := False, button := False, slider := s\<rparr>)
     \<lparr>vals = [Fin (137 / 20), NaN, Fin (537 / 20)], sels = [(''time'', 6), (''level'', 500)]\<rparr>
   = (s ''Min'' (Fin (137 / 20)) (Fin (537 / 20)) (Fin (137 / 20)) (Fin (2 / 5)),
      s ''Max'' (Fin (137 / 20)) (Fin (537 / 20)) (Fin (537 / 20)) (Fin (2 / 5)))"
  by (simp add: colour_limits_def default_limits_def slider_step_def py_or_def sample_lib_def
        reduce_nan_def fmin2_def fmax2_def Let_def)

theorem min_max_validation_witness:
  "app (sample_lib sample_store [] (\<lambda>g q. Fin q)) Fin [''app'']
       (sample_ui\<lparr>show_anom := False, button := False, slider := (\<lambda>label lo hi v step. lo)\<rparr>)
     = Inr (Stopped ''Min must be less than Max'')
   \<and> (\<exists>fig. app (sample_lib sample_store [] (\<lambda>g q. Fin q)) Fin [''app'']
               (sample_ui\<lparr>show_anom := False, button := False, slider := (\<lambda>label lo hi v step. v)\<rparr>)
             = Inr (Chart fig)
            \<and> fig_cmin fig = Fin (137 / 20) \<and> fig_cmax fig = Fin (537 / 20))"
proof -
  note t = min_max_validation [OF sidebar_sample displayed_sample,
      where ?c1 = "[]" and ?q1 = "\<lambda>g q. Fin q" and rnd = Fin]
  have stop: "app (sample_lib sample_store [] (\<lambda>g q. Fin q)) Fin [''app'']
       (sample_ui\<lparr>show_anom := False, button := False, slider := (\<lambda>label lo hi v step. lo)\<rparr>)
     = Inr (Stopped ''Min must be less than Max'')"
    by (subst t [THEN conjunct1]) (simp add: colour_limits_sample)
  have "flt (fst (colour_limits (sample_lib sample_store [] (\<lambda>g q. Fin q)) Fin
               (sample_ui\<lparr>show_anom := False, button := False, slider := (\<lambda>label lo hi v step. v)\<rparr>)
               (fst (\<lparr>vals = [Fin (137 / 20), NaN, Fin (537 / 20)], sels = [(''time'', 6), (''level'', 500)]\<rparr>,
                     ''thermal'', deg_C))))
            (snd (colour_limits (sample_lib sample_store [] (\<lambda>g q. Fin q)) Fin
               (sample_ui\<lparr>show_anom := False, button := False, slider := (\<lambda>label lo hi v step. v)\<rparr>)
               (fst (\<lparr>vals = [Fin (137 / 20), NaN, Fin (537 / 20)], sels = [(''time'', 6), (''level'', 500)]\<rparr>,
                     ''thermal'', deg_C))))"
    by (simp add: colour_limits_sample)
  from t [THEN conjunct2, THEN conjunct2, THEN conjunct1, THEN mp, OF this]
  have "\<exists>fig. app (sample_lib sample_store [] (\<lambda>g q. Fin q)) Fin [''app'']
               (sample_ui\<lparr>show_anom := False, button := False, slider := (\<lambda>label lo hi v step. v)\<rparr>)
             = Inr (Chart fig)
            \<and> fig_cmin fig = Fin (137 / 20) \<and> fig_cmax fig = Fin (537 / 20)"
    by (auto simp: colour_limits_sample)
  with stop show ?thesis by blast
qed

subsection \<open>Auto-scale\<close>

text \<open>
  Claim C4. When the auto-scale button is pressed, the colour limits are the 0.01 and the
  0.99 quantile of the displayed field, not-a-number values ignored, whatever the sliders
  returned.
\<close>

theorem auto_scale_quantiles:
  assumes "button u"
  shows "colour_limits lib rnd u da = (nanquantile lib da (1 / 100), nanquantile lib da (99 / 100))
         \<and> colour_limits lib rnd (u\<lparr>slider := s\<rparr>) da = colour_limits lib rnd u da"
  using assms by (simp add: colour_limits_def Let_def split: prod.splits)

theorem auto_scale_quantiles_witness:
  "button (sample_ui\<lparr>button := True\<rparr>)
   \<and> colour_limits (sample_lib sample_store [] (\<lambda>g q. Fin q)) Fin (sample_ui\<lparr>button := True\<rparr>)
        \<lparr>vals = [Fin 1, Fin 2], sels = []\<rparr> = (Fin (1 / 100), Fin (99 / 100))"
  using auto_scale_quantiles [of "sample_ui\<lparr>button := True\<rparr>" "sample_lib sample_store [] (\<lambda>g q. Fin q)" Fin
          "\<lparr>vals = [Fin 1, Fin 2], sels = []\<rparr>"]
  by (simp add: sample_lib_def)

subsection \<open>Fetching the slice\<close>

lemma table_lookup: "k \<in> set (map fst tab) \<Longrightarrow> \<exists>v. map_of tab k = Some v \<and> v \<in> set (map snd tab)"
  by (induction tab) auto

lemma surface_rows:
  "(domn, code, vname, units, cmap_abs, cmap_anom) \<in> set (map snd SURFACE)
     \<Longrightarrow> domn = ''sfc'' \<and> cmap_abs \<noteq> cmap_anom"
  by (auto simp: SURFACE_def)

lemma pressure_rows:
  "(domn, code, vname, units, cmap_abs, cmap_anom) \<in> set (map snd PRESSURE)
     \<Longrightarrow> domn = ''pl'' \<and> cmap_abs \<noteq> cmap_anom"
  by (auto simp: PRESSURE_def)

lemma sidebar_valid:
  assumes "valid_ui u"
  shows "\<exists>domn code vname units cmap_abs cmap_anom.
           sidebar u = Inr ((domn, code, vname, units, cmap_abs, cmap_anom),
                            if domn = ''pl'' then Some (plevel_box u) else None)
           \<and> (domn = ''sfc'' \<or> domn = ''pl'')
           \<and> (domn = ''pl'' \<longleftrightarrow> field_type u = ''Pressure level'')
           \<and> (domn = ''sfc'' \<longleftrightarrow> field_type u = ''Surface'')
           \<and> cmap_abs \<noteq> cmap_anom
           \<and> map_of (if field_type u = ''Surface'' then SURFACE else PRESSURE) (choice u)
               = Some (domn, code, vname, units, cmap_abs, cmap_anom)"
proof (cases "field_type u = ''Surface''")
  case True
  with assms have "choice u \<in> set (map fst SURFACE)" by (auto simp: valid_ui_def)
  from table_lookup [OF this] obtain row where r: "map_of SURFACE (choice u) = Some row"
    "row \<in> set (map snd SURFACE)" by blast
  obtain domn code vname units cmap_abs cmap_anom where
    row: "row = (domn, code, vname, units, cmap_abs, cmap_anom)" by (cases row) auto
  from surface_rows [OF r(2) [unfolded row]] have "domn = ''sfc''" "cmap_abs \<noteq> cmap_anom" by auto
  with True r(1) row show ?thesis by (simp add: sidebar_def)
next
  case False
  with assms have ft: "field_type u = ''Pressure level''" and "choice u \<in> set (map fst PRESSURE)"
    by (auto simp: valid_ui_def)
  from table_lookup [OF this(2)] obtain row where r: "map_of PRESSURE (choice u) = Some row"
    "row \<in> set (map snd PRESSURE)" by blast
  obtain domn code vname units cmap_abs cmap_anom where
    row: "row = (domn, code, vname, units, cmap_abs, cmap_anom)" by (cases row) auto
  from pressure_rows [OF r(2) [unfolded row]] have "domn = ''pl''" "cmap_abs \<noteq> cmap_anom" by auto
  with ft False r(1) row show ?thesis by (simp add: sidebar_def)
qed

lemma rda_url_form:
  assumes "domn = ''sfc'' \<or> domn = ''pl''"
  shows "rda_url y domn code var =
     ''https://thredds.rda.ucar.edu/thredds/dodsC/files/g/d633001_nc/''
       @ ''e5.moda.an.'' @ domn @ ''/'' @ str_int y @ ''/''
       @ ''e5.moda.an.'' @ domn @ ''.128_'' @ code @ ''_'' @ var @ ''.ll025''
       @ (if domn = ''pl'' \<and> (var = ''u'' \<or> var = ''v'') then ''uv'' else ''sc'') @ ''.''
       @ str_int y @ ''010100_'' @ str_int y @ ''120100.nc''"
  using assms by (auto simp: rda_url_def Let_def)

text \<open>
  Claim C1. For every selection the widgets can return, the row of the chosen variable
  is its entry in the table of the chosen domain, and the script opens the dataset at
  the address built by \<open>rda_url\<close> from the year and that row: the base address, then \<open>e5.moda.an.{dom}/{y}/\<close>,
  then a tail with the code and the name of the variable and the grid suffix
  \<open>ll025uv\<close> exactly when the domain is \<open>pl\<close> and the name is \<open>u\<close> or \<open>v\<close>, and
  \<open>ll025sc\<close> otherwise, ending in \<open>{y}010100_{y}120100.nc\<close>. From the variable found in
  that dataset it selects the time index \<open>mon - 1\<close>, and then the chosen pressure level
  exactly when the domain is the pressure-level one.
\<close>

theorem fetch_slice:
  assumes "valid_ui u"
  shows "\<exists>domn code vname units cmap_abs cmap_anom plevel.
     sidebar u = Inr ((domn, code, vname, units, cmap_abs, cmap_anom), plevel)
     \<and> (domn = ''sfc'' \<or> domn = ''pl'')
     \<and> (domn = ''pl'' \<longleftrightarrow> field_type u = ''Pressure level'')
     \<and> map_of (if field_type u = ''Surface'' then SURFACE else PRESSURE) (choice u)
         = Some (domn, code, vname, units, cmap_abs, cmap_anom)
     \<and> plevel = (if domn = ''pl'' then Some (plevel_box u) else None)
     \<and> rda_url (yr u) domn code vname =
         ''https://thredds.rda.ucar.edu/thredds/dodsC/files/g/d633001_nc/''
           @ ''e5.moda.an.'' @ domn @ ''/'' @ str_int (yr u) @ ''/''
           @ ''e5.moda.an.'' @ domn @ ''.128_'' @ code @ ''_'' @ vname @ ''.ll025''
           @ (if domn = ''pl'' \<and> (vname = ''u'' \<or> vname = ''v'') then ''uv'' else ''sc'') @ ''.''
           @ str_int (yr u) @ ''010100_'' @ str_int (yr u) @ ''120100.nc''
     \<and> load_field lib (yr u) domn code vname (mon u) plevel =
         bind_err (open_dataset lib (Url (rda_url (yr u) domn code vname)) False) (\<lambda>ds.
         bind_err (find_var (has_key lib ds) vname) (\<lambda>k.
         bind_err (getitem lib ds k) (\<lambda>v.
         bind_err (isel_time lib v (mon u - 1)) (\<lambda>da.
         if domn = ''pl'' then sel_level lib da (plevel_box u) else Inr da))))"
proof -
  from sidebar_valid [OF assms] obtain domn code vname units cmap_abs cmap_anom where
    s: "sidebar u = Inr ((domn, code, vname, units, cmap_abs, cmap_anom),
                         if domn = ''pl'' then Some (plevel_box u) else None)"
    and d: "domn = ''sfc'' \<or> domn = ''pl''"
    and p: "domn = ''pl'' \<longleftrightarrow> field_type u = ''Pressure level''"
    and m: "map_of (if field_type u = ''Surface'' then SURFACE else PRESSURE) (choice u)
              = Some (domn, code, vname, units, cmap_abs, cmap_anom)"
    by blast
  have l: "load_field lib (yr u) domn code vname (mon u) (if domn = ''pl'' then Some (plevel_box u) else None) =
         bind_err (open_dataset lib (Url (rda_url (yr u) domn code vname)) False) (\<lambda>ds.
         bind_err (find_var (has_key lib ds) vname) (\<lambda>k.
         bind_err (getitem lib ds k) (\<lambda>v.
         bind_err (isel_time lib v (mon u - 1)) (\<lambda>da.
         if domn = ''pl'' then sel_level lib da (plevel_box u) else Inr da))))"
    by (simp add: load_field_def open_year_def)
  from s d p m l rda_url_form [OF d] show ?thesis by blast
qed

theorem fetch_slice_witness:
  "valid_ui sample_ui
   \<and> load_field (sample_lib sample_store [] (\<lambda>g q. Fin q)) (yr sample_ui) ''pl'' ''130'' ''t'' (mon sample_ui)
        (Some (plevel_box sample_ui))
      = Inr \<lparr>vals = [Fin 280, NaN, Fin 300], sels = [(''time'', 6), (''level'', 500)]\<rparr>"
proof -
  have v: "valid_ui sample_ui"
    by (simp add: valid_ui_def sample_ui_def PRESSURE_def COMMON_PLEVELS_def YEARS_def)
  have s: "sidebar sample_ui = Inr ((''pl'', ''130'', ''t'', ''K'', ''thermal'', ''RdBu_r''), Some 500)"
    using sidebar_sample [where a = False and b = False and s = "\<lambda>label lo hi v step. v"]
    by (simp add: sample_ui_def)
  from fetch_slice [OF v, of "sample_lib sample_store [] (\<lambda>g q. Fin q)"] s
  have "load_field (sample_lib sample_store [] (\<lambda>g q. Fin q)) (yr sample_ui) ''pl'' ''130'' ''t'' (mon sample_ui)
          (Some (plevel_box sample_ui))
        = bind_err (open_dataset (sample_lib sample_store [] (\<lambda>g q. Fin q))
                      (Url (rda_url (yr sample_ui) ''pl'' ''130'' ''t'')) False) (\<lambda>ds.
          bind_err (find_var (has_key (sample_lib sample_store [] (\<lambda>g q. Fin q)) ds) ''t'') (\<lambda>k.
          bind_err (getitem (sample_lib sample_store [] (\<lambda>g q. Fin q)) ds k) (\<lambda>v.
          bind_err (isel_time (sample_lib sample_store [] (\<lambda>g q. Fin q)) v (mon sample_ui - 1)) (\<lambda>da.
          sel_level (sample_lib sample_store [] (\<lambda>g q. Fin q)) da (plevel_box sample_ui)))))"
    by auto
  also have "\<dots> = Inr \<lparr>vals = [Fin 280, NaN, Fin 300], sels = [(''time'', 6), (''level'', 500)]\<rparr>"
    by (simp add: sample_ui_def sample_lib_def sample_store_def bind_err_def find_var_t)
  finally show ?thesis using v by simp
qed

subsection \<open>The anomaly view\<close>

lemma displayed_unfold:
  "displayed lib here u (domn, code, vname, units, cmap_abs, cmap_anom) plevel =
     bind_err (load_field lib (yr u) domn code vname (mon u) plevel) (\<lambda>da.
     if show_anom u
     then bind_err (open_dataset lib (FilePath (clim_path here domn vname plevel)) True) (\<lambda>ds.
          bind_err (find_var (has_key lib ds) vname) (\<lambda>k.
          bind_err (getitem lib ds k) (\<lambda>clim.
          bind_err (sel_month lib clim (mon u)) (\<lambda>c.
          Inr (sub_field lib (fst (convert_units lib vname (da, units))) c, cmap_anom,
               snd (convert_units lib vname (da, units)) @ '' anomaly'')))))
     else Inr (fst (convert_units lib vname (da, units)), cmap_abs,
               snd (convert_units lib vname (da, units))))"
  by (simp add: displayed_def anomaly_def load_clim_def bind_err_def split: sum.splits)

lemma clim_path_valid:
  assumes "domn = ''sfc'' \<longleftrightarrow> ft = ''Surface''" and "domn = ''sfc'' \<or> domn = ''pl''"
  shows "clim_path here domn vname (if domn = ''pl'' then Some p else None) =
     CLIM_DIR here @ (if ft = ''Surface'' then [''sfc'', vname @ ''.nc'']
                      else [''pl'', vname @ ''_'' @ str_int p @ ''.nc''])"
  using assms by (auto simp: clim_path_def)

lemma str_int_500: "str_int 500 = ''500''"
  by code_simp

text \<open>
  Claim C2. With the anomaly box ticked, the displayed field is the unit-converted
  monthly field minus the climatology selected at the chosen month, where the climatology
  is read from \<open>sfc/{var}.nc\<close> for a surface variable and from \<open>pl/{var}_{lvl}.nc\<close> for
  a pressure-level variable, both below the climatology directory; the colour map is the
  anomaly colour map of the variable and the units get \<open>anomaly\<close> appended. With the
  box not ticked, the field, the absolute colour map and the units are used as they are.
  The appended units and the anomaly colour map occur exactly when the box is ticked.
\<close>

theorem anomaly_view:
  assumes v: "valid_ui u"
      and s: "sidebar u = Inr ((domn, code, vname, units, cmap_abs, cmap_anom), plevel)"
      and l: "load_field lib (yr u) domn code vname (mon u) plevel = Inr da"
  shows
   "(show_anom u \<longrightarrow>
       displayed lib here u (domn, code, vname, units, cmap_abs, cmap_anom) plevel =
         bind_err (open_dataset lib (FilePath (CLIM_DIR here @
                      (if field_type u = ''Surface'' then [''sfc'', vname @ ''.nc'']
                       else [''pl'', vname @ ''_'' @ str_int (plevel_box u) @ ''.nc'']))) True) (\<lambda>ds.
         bind_err (find_var (has_key lib ds) vname) (\<lambda>k.
         bind_err (getitem lib ds k) (\<lambda>clim.
         bind_err (sel_month lib clim (mon u)) (\<lambda>c.
         Inr (sub_field lib (fst (convert_units lib vname (da, units))) c, cmap_anom,
              snd (convert_units lib vname (da, units)) @ '' anomaly''))))))
    \<and> (\<not> show_anom u \<longrightarrow>
         displayed lib here u (domn, code, vname, units, cmap_abs, cmap_anom) plevel =
           Inr (fst (convert_units lib vname (da, units)), cmap_abs,
                snd (convert_units lib vname (da, units))))
    \<and> (\<forall>f cm un. displayed lib here u (domn, code, vname, units, cmap_abs, cmap_anom) plevel = Inr (f, cm, un) \<longrightarrow>
          (un = snd (convert_units lib vname (da, units)) @ '' anomaly'' \<longleftrightarrow> show_anom u)
        \<and> (cm = cmap_anom \<longleftrightarrow> show_anom u)
        \<and> (cm = cmap_abs \<longleftrightarrow> \<not> show_anom u))"
proof -
  from sidebar_valid [OF v] s
  have pl: "plevel = (if domn = ''pl'' then Some (plevel_box u) else None)"
    and ft: "domn = ''sfc'' \<longleftrightarrow> field_type u = ''Surface''"
    and ne: "cmap_abs \<noteq> cmap_anom"
    and dd: "domn = ''sfc'' \<or> domn = ''pl''"
    by auto
  note d = displayed_unfold [of lib here u domn code vname units cmap_abs cmap_anom plevel,
      unfolded l, unfolded pl clim_path_valid [OF ft dd]]
  have on: "show_anom u \<Longrightarrow> ?thesis"
    using ne unfolding pl by (auto simp: d bind_err_def split: sum.splits)
  have off: "\<not> show_anom u \<Longrightarrow> ?thesis"
    using ne unfolding pl by (auto simp: d bind_err_def)
  from on off show ?thesis by blast
qed

theorem anomaly_view_witness:
  "valid_ui (sample_ui\<lparr>show_anom := True\<rparr>)
   \<and> sidebar (sample_ui\<lparr>show_anom := True\<rparr>)
        = Inr ((''pl'', ''130'', ''t'', ''K'', ''thermal'', ''RdBu_r''), Some 500)
   \<and> load_field (sample_lib sample_store [] (\<lambda>g q. Fin q)) (yr (sample_ui\<lparr>show_anom := True\<rparr>))
        ''pl'' ''130'' ''t'' (mon (sample_ui\<lparr>show_anom := True\<rparr>)) (Some 500)
        = Inr \<lparr>vals = [Fin 280, NaN, Fin 300], sels = [(''time'', 6), (''level'', 500)]\<rparr>
   \<and> displayed (sample_lib sample_store [] (\<lambda>g q. Fin q)) [''app''] (sample_ui\<lparr>show_anom := True\<rparr>)
        (''pl'', ''130'', ''t'', ''K'', ''thermal'', ''RdBu_r'') (Some 500)
        = Inr (\<lparr>vals = [Fin (- (63 / 20)), NaN, Fin (137 / 20)],
                 sels = [(''time'', 6), (''level'', 500)]\<rparr>,
               ''RdBu_r'', deg_C @ '' anomaly'')"
proof -
  let ?u = "sample_ui\<lparr>show_anom := True\<rparr>"
  let ?lib = "sample_lib sample_store [] (\<lambda>g q. Fin q)"
  have v: "valid_ui ?u"
    by (simp add: valid_ui_def sample_ui_def PRESSURE_def COMMON_PLEVELS_def YEARS_def)
  have s: "sidebar ?u = Inr ((''pl'', ''130'', ''t'', ''K'', ''thermal'', ''RdBu_r''), Some 500)"
    using sidebar_sample [where a = True and b = False and s = "\<lambda>label lo hi v step. v"]
    by (simp add: sample_ui_def)
  have l: "load_field ?lib (yr ?u) ''pl'' ''130'' ''t'' (mon ?u) (Some 500)
             = Inr \<lparr>vals = [Fin 280, NaN, Fin 300], sels = [(''time'', 6), (''level'', 500)]\<rparr>"
    using load_field_sample [of "[]" "\<lambda>g q. Fin q"] by (simp add: sample_ui_def)
  have c: "convert_units ?lib ''t'' (\<lparr>vals = [Fin 280, NaN, Fin 300], sels = [(''time'', 6), (''level'', 500)]\<rparr>, ''K'')
             = (\<lparr>vals = [Fin (137 / 20), NaN, Fin (537 / 20)], sels = [(''time'', 6), (''level'', 500)]\<rparr>, deg_C)"
    by (simp add: convert_units_def sample_lib_def)
  have k: "find_var (\<lambda>k. k = ''VAR_T'') ''t'' = Inr ''VAR_T''"
    by (simp add: find_var_order upper_t)
  have sa: "show_anom ?u" by simp
  note d = anomaly_view [OF v s l, of "[''app'']", THEN conjunct1, THEN mp, OF sa]
  have "displayed ?lib [''app''] ?u (''pl'', ''130'', ''t'', ''K'', ''thermal'', ''RdBu_r'') (Some 500)
          = Inr (\<lparr>vals = [Fin (- (63 / 20)), NaN, Fin (137 / 20)],
                   sels = [(''time'', 6), (''level'', 500)]\<rparr>,
                 ''RdBu_r'', deg_C @ '' anomaly'')"
    apply (subst d)
    apply (simp only: c fst_conv snd_conv)
    apply (simp add: sample_ui_def sample_lib_def sample_store_def CLIM_DIR_def bind_err_def
          str_int_500 k)
    done
  with v s l show ?thesis by blast
qed

subsection \<open>The coastline overlay\<close>

text \<open>
  The index loop over the vertices of one line, started at any index \<open>j\<close>, appends what
  \<open>with_gaps\<close> makes of the remaining vertices.
\<close>

lemma vertex_loop:
  assumes len: "length lat = length lon"
  shows "j \<le> length lon \<Longrightarrow>
     fold (vertex_step rnd gap lon lat) [j ..< length lon] t =
       t\<lparr>trace_x := trace_x t @ map fst (with_gaps rnd gap (drop j (zip lon lat))),
         trace_y := trace_y t @ map snd (with_gaps rnd gap (drop j (zip lon lat)))\<rparr>"
proof (induction "length lon - j" arbitrary: j t)
  case 0
  then show ?case by simp
next
  case (Suc k)
  then have j: "j < length lon" by simp
  then have upt: "[j ..< length lon] = j # [Suc j ..< length lon]" by (rule upt_conv_Cons)
  from j len have dj: "drop j (zip lon lat) = (lon ! j, lat ! j) # drop (Suc j) (zip lon lat)"
    by (simp add: Cons_nth_drop_Suc [symmetric])
  from Suc have k: "k = length lon - Suc j" and le: "Suc j \<le> length lon" by simp_all
  note ih = Suc.hyps(1) [OF k le]
  show ?case
  proof (cases "Suc j < length lon")
    case True
    with len have dsj: "drop (Suc j) (zip lon lat)
        = (lon ! Suc j, lat ! Suc j) # drop (Suc (Suc j)) (zip lon lat)"
      by (simp add: Cons_nth_drop_Suc [symmetric])
    from True have c: "int j < int (length lon) - 1" by simp
    show ?thesis
      by (simp add: upt ih dj vertex_step_def Let_def c) (simp add: dsj brk_def)
  next
    case False
    with j have e: "Suc j = length lon" by simp
    then have c: "\<not> int j < int (length lon) - 1" by simp
    from e len have dsj: "drop (Suc j) (zip lon lat) = []" by simp
    show ?thesis
      by (simp add: upt ih dj vertex_step_def Let_def c) (simp add: dsj)
  qed
qed

lemma zip_mod: "zip (map (f \<circ> fst) line) (map snd line) = map (\<lambda>(x, y). (f x, y)) line"
  by (induction line) auto

lemma line_step_polyline:
  "line_step rnd gap line t =
     t\<lparr>trace_x := trace_x t @ map fst (polyline rnd gap line),
       trace_y := trace_y t @ map snd (polyline rnd gap line)\<rparr>"
proof -
  let ?lon = "map (np_mod360 rnd) (map fst line)" and ?lat = "map snd line"
  have len: "length ?lat = length ?lon" by simp
  show ?thesis
    using vertex_loop [OF len, of 0 rnd gap]
    by (simp add: line_step_def Let_def zip_mod polyline_def brk_def)
qed

lemma lines_loop:
  "fold (line_step rnd gap) ls t =
     t\<lparr>trace_x := trace_x t @ map fst (concat (map (polyline rnd gap) ls)),
       trace_y := trace_y t @ map snd (concat (map (polyline rnd gap) ls))\<rparr>"
  by (induction ls arbitrary: t) (simp_all add: line_step_polyline)

lemma geoms_loop:
  "fold (geom_step rnd gap) gs t =
     t\<lparr>trace_x := trace_x t @ map fst (overlay rnd gap gs),
       trace_y := trace_y t @ map snd (overlay rnd gap gs)\<rparr>"
  by (induction gs arbitrary: t) (simp_all add: geom_step_def lines_loop overlay_def)

lemma with_gaps_hd: "ps \<noteq> [] \<Longrightarrow> hd (with_gaps rnd gap ps) = hd ps"
  by (induction rnd gap ps rule: with_gaps.induct) auto

lemma with_gaps_successively: "successively (no_jump rnd gap) (with_gaps rnd gap ps)"
  by (induction rnd gap ps rule: with_gaps.induct) (auto simp: no_jump_def brk_def successively_Cons with_gaps_hd)

lemma polyline_successively: "successively (no_jump rnd gap) (polyline rnd gap line)"
  using with_gaps_successively [of rnd gap]
  by (auto simp: polyline_def successively_Cons no_jump_def brk_def)

lemma polylines_successively:
  "successively (no_jump rnd gap) (concat (map (polyline rnd gap) ls))"
proof (induction ls)
  case Nil
  then show ?case by simp
next
  case (Cons l ls)
  have "concat (map (polyline rnd gap) ls) \<noteq> [] \<Longrightarrow>
          fst (hd (concat (map (polyline rnd gap) ls))) = NaN"
    by (induction ls) (auto simp: polyline_def brk_def)
  with Cons polyline_successively [of rnd gap l] show ?case
    by (auto simp: successively_append_iff no_jump_def)
qed

text \<open>
  Claim C6. \<open>coastlines_trace\<close> builds one polyline with breaks: for every geometry and
  every line in it, the longitudes are reduced modulo 360, a break (NaN, NaN) comes
  before the vertices of the line, every vertex follows in order, and a further break
  stands between two consecutive vertices whose longitudes differ by more than the gap
  (10 by default). So two neighbouring points of the trace that are both not breaks are
  never further apart than the gap.
\<close>

theorem coastline_overlay:
  "trace_x (coastlines_trace lib rnd res gap) = map fst (overlay rnd gap (geometries lib res))
   \<and> trace_y (coastlines_trace lib rnd res gap) = map snd (overlay rnd gap (geometries lib res))
   \<and> successively (no_jump rnd gap) (overlay rnd gap (geometries lib res))"
  by (simp add: coastlines_trace_def geoms_loop overlay_def polylines_successively)

theorem coastline_overlay_witness:
  "trace_x (coastlines_trace (sample_lib sample_store sample_coast (\<lambda>g q. Fin q)) Fin ''110m'' 10)
     = [NaN, Fin 350, NaN, Fin 5, Fin 8, NaN, Fin 190, NaN, Fin 170, NaN]
   \<and> trace_y (coastlines_trace (sample_lib sample_store sample_coast (\<lambda>g q. Fin q)) Fin ''110m'' 10)
     = [NaN, Fin 10, NaN, Fin 11, Fin 12, NaN, Fin 0, NaN, Fin 1, NaN]
   \<and> successively (no_jump Fin 10)
        [brk, (Fin 350, Fin 10), brk, (Fin 5, Fin 11), (Fin 8, Fin 12), brk, (Fin 190, Fin 0), brk,
         (Fin 170, Fin 1), brk]"
proof -
  have g: "geometries (sample_lib sample_store sample_coast (\<lambda>g q. Fin q)) ''110m'' = sample_coast"
    by (simp add: sample_lib_def)
  have o: "overlay Fin 10 sample_coast =
      [brk, (Fin 350, Fin 10), brk, (Fin 5, Fin 11), (Fin 8, Fin 12), brk, (Fin 190, Fin 0), brk,
       (Fin 170, Fin 1), brk]"
    by (simp add: overlay_def sample_coast_def polyline_def jump_def fgt_def)
  from coastline_overlay [of "sample_lib sample_store sample_coast (\<lambda>g q. Fin q)" Fin "''110m''" 10]
  show ?thesis
    unfolding g o by (simp add: brk_def)
qed

end
